theory Spec2Isabelle
  imports Complex_Main "HOL-Library.Sublist"
begin

section \<open>Python values and string operations\<close>

text \<open>
  A Python \<open>str\<close> is a sequence of Unicode code points; \<open>len\<close>, slicing, \<open>find\<close> and
  \<open>strip\<close> all count code points. A string is therefore modelled as a list of code points
  (natural numbers), and the ASCII literals of the source are embedded with \<open>lit\<close>.
\<close>

type_synonym pystr = "nat list"

definition lit :: "string \<Rightarrow> pystr" where
  "lit s = map of_char s"

text \<open>
  The values that \<open>json.loads\<close> can produce, which are also the values a dataclass field
  can hold at run time (the annotations of a dataclass are not enforced). A JSON object is
  an association list with \<open>map_of\<close> as lookup. A float is kept as the number it denotes:
  the program only ever tests a number for being zero.
\<close>

datatype pyval =
    PNone
  | PBool bool
  | PInt int
  | PFloat rat
  | PStr pystr
  | PList "pyval list"
  | PDict "(pystr \<times> pyval) list"

datatype py_error =
    TypeError
  | AttributeError
  | KeyError
  | Raised pystr   \<comment> \<open>an exception of an external library, with its message\<close>

text \<open>Truth value of an object, as used by \<open>if x:\<close> and \<open>not x\<close>.\<close>

fun truthy :: "pyval \<Rightarrow> bool" where
  "truthy PNone = False"
| "truthy (PBool b) = b"
| "truthy (PInt i) = (i \<noteq> 0)"
| "truthy (PFloat r) = (r \<noteq> 0)"
| "truthy (PStr s) = (s \<noteq> [])"
| "truthy (PList xs) = (xs \<noteq> [])"
| "truthy (PDict kvs) = (kvs \<noteq> [])"

text \<open>\<open>for x in v\<close>: the elements of a list, the characters of a string, the keys of a
  dict; anything else is not iterable.\<close>

fun py_iter :: "pyval \<Rightarrow> py_error + pyval list" where
  "py_iter (PList xs) = Inr xs"
| "py_iter (PStr s) = Inr (map (\<lambda>c. PStr [c]) s)"
| "py_iter (PDict kvs) = Inr (map (\<lambda>kv. PStr (fst kv)) kvs)"
| "py_iter _ = Inl TypeError"

text \<open>Sequencing of steps that may raise: the first exception ends the sequence.\<close>

definition and_then :: "py_error + 'a \<Rightarrow> ('a \<Rightarrow> py_error + 'b) \<Rightarrow> py_error + 'b" where
  "and_then m f = (case m of Inl ex \<Rightarrow> Inl ex | Inr x \<Rightarrow> f x)"

text \<open>\<open>d.get(k, default)\<close>: only a dict has the method.\<close>

fun py_get :: "pyval \<Rightarrow> pystr \<Rightarrow> pyval \<Rightarrow> py_error + pyval" where
  "py_get (PDict kvs) k d = Inr (case map_of kvs k of Some v \<Rightarrow> v | None \<Rightarrow> d)"
| "py_get _ k d = Inl AttributeError"

text \<open>\<open>s.find(p)\<close> and \<open>s.rfind(p)\<close>: lowest and highest index at which \<open>p\<close> occurs in
  \<open>s\<close>, or \<open>-1\<close>.\<close>

fun find_first :: "'a list \<Rightarrow> 'a list \<Rightarrow> nat option" where
  "find_first p [] = (if p = [] then Some 0 else None)"
| "find_first p (x # xs) =
     (if prefix p (x # xs) then Some 0 else map_option Suc (find_first p xs))"

fun find_last :: "'a list \<Rightarrow> 'a list \<Rightarrow> nat option" where
  "find_last p [] = (if p = [] then Some 0 else None)"
| "find_last p (x # xs) =
     (case find_last p xs of
        Some k \<Rightarrow> Some (Suc k)
      | None \<Rightarrow> if prefix p (x # xs) then Some 0 else None)"

definition py_find :: "'a list \<Rightarrow> 'a list \<Rightarrow> int" where
  "py_find s p = (case find_first p s of Some k \<Rightarrow> int k | None \<Rightarrow> - 1)"

definition py_rfind :: "'a list \<Rightarrow> 'a list \<Rightarrow> int" where
  "py_rfind s p = (case find_last p s of Some k \<Rightarrow> int k | None \<Rightarrow> - 1)"

text \<open>\<open>p in s\<close> for strings.\<close>

definition py_in :: "'a list \<Rightarrow> 'a list \<Rightarrow> bool" where
  "py_in p s = (find_first p s \<noteq> None)"

text \<open>\<open>s[a:b]\<close>: a negative index counts from the end, and both are clipped to the
  length.\<close>

definition clip_index :: "nat \<Rightarrow> int \<Rightarrow> nat" where
  "clip_index n i = (if i < 0 then nat (max 0 (int n + i)) else min n (nat i))"

definition py_slice :: "'a list \<Rightarrow> int \<Rightarrow> int \<Rightarrow> 'a list" where
  "py_slice s a b = drop (clip_index (length s) a) (take (clip_index (length s) b) s)"

text \<open>\<open>s.strip()\<close> removes the leading and trailing characters for which
  \<open>str.isspace\<close> holds.\<close>

definition is_space :: "nat \<Rightarrow> bool" where
  "is_space c =
     ((9 \<le> c \<and> c \<le> 13) \<or> (28 \<le> c \<and> c \<le> 32) \<or> c = 133 \<or> c = 160 \<or> c = 5760
      \<or> (8192 \<le> c \<and> c \<le> 8202) \<or> c = 8232 \<or> c = 8233 \<or> c = 8239 \<or> c = 8287
      \<or> c = 12288)"

definition strip :: "pystr \<Rightarrow> pystr" where
  "strip s = rev (dropWhile is_space (rev (dropWhile is_space s)))"

section \<open>Data model\<close>

record SlideContent =
  title :: pyval
  bullet_points :: pyval
  additional_info :: pyval
  image_urls :: pyval
  reference_urls :: pyval

text \<open>The constructor with its \<open>__post_init__\<close>: a \<open>None\<close> list of URLs becomes the empty
  list.\<close>

definition new_SlideContent :: "pyval \<Rightarrow> pyval \<Rightarrow> pyval \<Rightarrow> pyval \<Rightarrow> pyval \<Rightarrow> SlideContent" where
  "new_SlideContent t b a i r =
     \<lparr> title = t, bullet_points = b, additional_info = a,
       image_urls = (if i = PNone then PList [] else i),
       reference_urls = (if r = PNone then PList [] else r) \<rparr>"

record PresentationData =
  slides :: "SlideContent list"
  topic :: pystr
  generated_at :: nat

section \<open>External collaborators and observable effects\<close>

text \<open>
  The AI service, the JSON decoder, the HTTP client, the parsing libraries, the layout
  library and the clock are outside the program. Each one is a field of the environment:
  a function from the arguments of the call to its outcome, where \<open>Inl\<close> is a raised
  exception. Nothing is assumed about them.
\<close>

type_synonym bytes = "nat list"

text \<open>The story handed to the layout library: the flowables in the order in which they
  were constructed, each with the arguments of its constructor. Lengths are in points.\<close>

datatype style = TitleSlide | SlideTitle | BulletPoint | AdditionalInfo | URLStyle

datatype flowable =
    Spacer rat rat
  | Paragraph pyval style
  | Image nat rat rat   \<comment> \<open>the name of the image file, width, height\<close>
  | PageBreak


datatype download =
    DownloadFailed py_error   \<comment> \<open>\<open>requests.get\<close> or \<open>raise_for_status\<close> raised: no file was created\<close>
  | DownloadBroken py_error   \<comment> \<open>the temporary file was created, then reading a chunk raised\<close>
  | DownloadOk                \<comment> \<open>all chunks were written to the temporary file\<close>

record dataframe =
  nrows :: nat   \<comment> \<open>\<open>df.shape[0]\<close>; \<open>df.shape[1]\<close> is the number of columns\<close>
  columns :: "pystr list"
  describe :: "py_error + pystr"   \<comment> \<open>\<open>df.describe(include='all').to_string()\<close>\<close>

record env =
  generate_content :: "pystr \<Rightarrow> py_error + pystr"
    \<comment> \<open>\<open>GenerativeModel('gemini-2.0-flash').generate_content(prompt).text\<close>\<close>
  json_loads :: "pystr \<Rightarrow> py_error + pyval"
  now :: nat
    \<comment> \<open>\<open>datetime.now()\<close>\<close>
  strftime :: "nat \<Rightarrow> pystr"
    \<comment> \<open>\<open>t.strftime('%B %d, %Y')\<close>\<close>
  py_str :: "pyval \<Rightarrow> pystr"
    \<comment> \<open>\<open>str(v)\<close> of a value that is not a string\<close>
  requests_get :: "nat \<Rightarrow> pyval \<Rightarrow> download"
    \<comment> \<open>outcome of the \<open>k\<close>-th download of the run, for the given URL\<close>
  image_open :: "nat \<Rightarrow> py_error option"
    \<comment> \<open>\<open>Image(path, ...)\<close> on the file of the \<open>k\<close>-th download: \<open>Some\<close> is a raised exception\<close>
  pdf_pages :: "bytes \<Rightarrow> py_error + pystr list"
    \<comment> \<open>\<open>page.extract_text()\<close> of every page of \<open>PyPDF2.PdfReader(file)\<close>\<close>
  docx_paragraphs :: "bytes \<Rightarrow> py_error + pystr list"
    \<comment> \<open>\<open>paragraph.text\<close> of every paragraph of \<open>docx.Document(file)\<close>\<close>
  utf8_decode :: "bytes \<Rightarrow> py_error + pystr"
    \<comment> \<open>\<open>str(file.read(), "utf-8")\<close>\<close>
  read_csv :: "bytes \<Rightarrow> py_error + dataframe"
  doc_build :: "flowable list \<Rightarrow> py_error + bytes"
    \<comment> \<open>\<open>SimpleDocTemplate(...).build(story)\<close>: the bytes of the PDF\<close>

text \<open>
  What the program does to the outside: messages shown in the user interface, lines
  printed on the console, prompts sent to the AI service, URLs requested, and the
  temporary files that exist. \<open>NamedTemporaryFile\<close> gives every file a fresh name; the
  file created by the \<open>k\<close>-th download of the run is called \<open>k\<close>.
\<close>

datatype ui_event =
    StError pystr               \<comment> \<open>\<open>st.error(msg)\<close>\<close>
  | StErrorExc pystr py_error   \<comment> \<open>\<open>st.error(f"msg{str(e)}")\<close>\<close>
  | StSuccess pystr             \<comment> \<open>\<open>st.success(msg)\<close>\<close>
  | StWarning pystr             \<comment> \<open>\<open>st.warning(msg)\<close>\<close>

record world =
  ui_log :: "ui_event list"
  console :: "(pyval \<times> py_error) list"
    \<comment> \<open>\<open>print(f"Error downloading image {url}: {e}")\<close>\<close>
  prompts_sent :: "pystr list"
  fetched :: "pyval list"
  tmp_files :: "nat list"

definition st_error :: "pystr \<Rightarrow> world \<Rightarrow> world" where
  "st_error msg w = w\<lparr>ui_log := ui_log w @ [StError msg]\<rparr>"

definition st_error_exc :: "pystr \<Rightarrow> py_error \<Rightarrow> world \<Rightarrow> world" where
  "st_error_exc msg ex w = w\<lparr>ui_log := ui_log w @ [StErrorExc msg ex]\<rparr>"

definition st_success :: "pystr \<Rightarrow> world \<Rightarrow> world" where
  "st_success msg w = w\<lparr>ui_log := ui_log w @ [StSuccess msg]\<rparr>"

definition st_warning :: "pystr \<Rightarrow> world \<Rightarrow> world" where
  "st_warning msg w = w\<lparr>ui_log := ui_log w @ [StWarning msg]\<rparr>"


fun show_nat :: "nat \<Rightarrow> pystr" where
  "show_nat n = (if n < 10 then [48 + n] else show_nat (n div 10) @ [48 + n mod 10])"

text \<open>\<open>sep.join(xs)\<close>.\<close>

fun join :: "'a list \<Rightarrow> 'a list list \<Rightarrow> 'a list" where
  "join sep [] = []"
| "join sep [x] = x"
| "join sep (x # y # ys) = x @ sep @ join sep (y # ys)"

section \<open>Document processing\<close>

record uploaded_file =
  file_type :: pystr   \<comment> \<open>\<open>uploaded_file.type\<close>, the declared MIME type\<close>
  file_data :: bytes

definition extract_text_from_pdf :: "env \<Rightarrow> uploaded_file \<Rightarrow> world \<Rightarrow> pystr \<times> world" where
  "extract_text_from_pdf e file w =
     (case pdf_pages e (file_data file) of
        Inr pages \<Rightarrow> (strip (concat (map (\<lambda>page. page @ lit ''\<newline>'') pages)), w)
      | Inl ex \<Rightarrow> ([], st_error_exc (lit ''Error reading PDF: '') ex w))"

definition extract_text_from_docx :: "env \<Rightarrow> uploaded_file \<Rightarrow> world \<Rightarrow> pystr \<times> world" where
  "extract_text_from_docx e file w =
     (case docx_paragraphs e (file_data file) of
        Inr paragraphs \<Rightarrow>
          (strip (concat (map (\<lambda>paragraph. paragraph @ lit ''\<newline>'') paragraphs)), w)
      | Inl ex \<Rightarrow> ([], st_error_exc (lit ''Error reading DOCX: '') ex w))"

definition extract_text_from_txt :: "env \<Rightarrow> uploaded_file \<Rightarrow> world \<Rightarrow> pystr \<times> world" where
  "extract_text_from_txt e file w =
     (case utf8_decode e (file_data file) of
        Inr text \<Rightarrow> (text, w)
      | Inl ex \<Rightarrow> ([], st_error_exc (lit ''Error reading TXT: '') ex w))"

definition extract_text_from_csv :: "env \<Rightarrow> uploaded_file \<Rightarrow> world \<Rightarrow> pystr \<times> world" where
  "extract_text_from_csv e file w =
     (case and_then (read_csv e (file_data file)) (\<lambda>df.
           and_then (describe df) (\<lambda>overview.
           Inr (lit ''Dataset Summary:\<newline>''
                @ lit ''Shape: '' @ show_nat (nrows df) @ lit '' rows, ''
                @ show_nat (length (columns df)) @ lit '' columns\<newline>''
                @ lit ''Columns: '' @ join (lit '', '') (columns df) @ lit ''\<newline>\<newline>''
                @ lit ''Data Overview:\<newline>''
                @ overview))) of
        Inr summary \<Rightarrow> (summary, w)
      | Inl ex \<Rightarrow> ([], st_error_exc (lit ''Error reading CSV: '') ex w))"

definition process_uploaded_file ::
  "env \<Rightarrow> uploaded_file option \<Rightarrow> world \<Rightarrow> pystr \<times> world" where
  "process_uploaded_file e uploaded w =
     (case uploaded of
        None \<Rightarrow> ([], w)
      | Some f \<Rightarrow>
          if file_type f = lit ''application/pdf'' then extract_text_from_pdf e f w
          else if file_type f =
                  lit ''application/vnd.openxmlformats-officedocument.wordprocessingml.document''
            then extract_text_from_docx e f w
          else if file_type f = lit ''text/plain'' then extract_text_from_txt e f w
          else if file_type f = lit ''text/csv'' then extract_text_from_csv e f w
          else ([], st_error (lit ''Unsupported file type: '' @ file_type f) w))"

text \<open>The four MIME types that \<open>process_uploaded_file\<close> dispatches on.\<close>

definition supported_types :: "pystr list" where
  "supported_types =
     [lit ''application/pdf'',
      lit ''application/vnd.openxmlformats-officedocument.wordprocessingml.document'',
      lit ''text/plain'',
      lit ''text/csv'']"

section \<open>Prompt builder\<close>

definition base_prompt :: pystr where
  "base_prompt = lit (
     ''You are an intelligent assistant that helps generate professional PDF presentations with rich content.\<newline>'' @
     ''\<newline>'' @
     ''Your task is to generate comprehensive presentation-ready slide content with additional information, relevant image suggestions, and reference URLs.\<newline>'' @
     ''\<newline>'' @
     ''Instructions:\<newline>'' @
     ''1. Create 6-10 slides including title, introduction, content slides, and conclusion\<newline>'' @
     ''2. Each slide should have a clear title and 3-6 concise bullet points\<newline>'' @
     ''3. Include additional_info with detailed explanations, statistics, or examples\<newline>'' @
     ''4. Suggest relevant image_urls (use placeholder URLs like https://via.placeholder.com/400x300/0066cc/ffffff?text=Topic+Image)\<newline>'' @
     ''5. Provide reference_urls with credible sources and further reading links\<newline>'' @
     ''6. Keep content professional, informative, and comprehensive\<newline>'' @
     ''\<newline>'' @
     ''Output Format - Respond ONLY with valid JSON in this exact structure:\<newline>'' @
     ''```json\<newline>'' @
     ''{\<newline>'' @
     ''  \"slides\": [\<newline>'' @
     ''    {\<newline>'' @
     ''      \"title\": \"Slide Title\",\<newline>'' @
     ''      \"bullet_points\": [\<newline>'' @
     ''        \"First key point\",\<newline>'' @
     ''        \"Second important point\", \<newline>'' @
     ''        \"Third valuable insight\"\<newline>'' @
     ''      ],\<newline>'' @
     ''      \"additional_info\": \"Detailed explanation, statistics, examples, or context that supports the main points. This should be informative and add value to the presentation.\",\<newline>'' @
     ''      \"image_urls\": [\<newline>'' @
     ''        \"https://via.placeholder.com/400x300/0066cc/ffffff?text=Relevant+Image1\",\<newline>'' @
     ''        \"https://via.placeholder.com/400x300/28a745/ffffff?text=Chart+or+Graph\"\<newline>'' @
     ''      ],\<newline>'' @
     ''      \"reference_urls\": [\<newline>'' @
     ''        \"https://example.com/relevant-article\",\<newline>'' @
     ''        \"https://research.example.com/study\"\<newline>'' @
     ''      ]\<newline>'' @
     ''    }\<newline>'' @
     ''  ]\<newline>'' @
     ''}\<newline>'' @
     ''```\<newline>'')"

definition create_presentation_prompt :: "pystr \<Rightarrow> pystr \<Rightarrow> pystr" where
  "create_presentation_prompt the_topic document_content =
     (if document_content \<noteq> [] then
        let content_preview =
              (if length document_content > 3000
               then py_slice document_content 0 3000 @ lit ''...''
               else document_content)
        in base_prompt @ lit ''\<newline>\<newline>Document Content to Analyze:\<newline>'' @ content_preview
           @ lit ''\<newline>\<newline>Topic: '' @ the_topic
      else
        base_prompt @ lit ''\<newline>\<newline>Topic to Present: '' @ the_topic
          @ lit ''\<newline>\<newline>Generate comprehensive content based on your knowledge with relevant examples, statistics, and references.'')"

section \<open>Response parser and fallback generator\<close>

text \<open>
  \<open>generate_with_gemini\<close>, in the order of the source: the call of the backend, the
  trimming of the response, the removal of a Markdown fence (\<open>strip_fence\<close>), the cut from
  the first \<open>{\<close> to the last \<open>}\<close> (\<open>json_payload\<close>) and the decoding. Every exception is
  caught, reported in the user interface and answered by \<open>None\<close>.
\<close>

definition strip_fence :: "pystr \<Rightarrow> pystr" where
  "strip_fence response_text =
     (if py_in (lit ''```json'') response_text then
        let json_start = py_find response_text (lit ''```json'') + 7;
            json_end = py_rfind response_text (lit ''```'')
        in if json_end > json_start
           then strip (py_slice response_text json_start json_end)
           else response_text
      else response_text)"

definition json_payload :: "pystr \<Rightarrow> pystr option" where
  "json_payload response_text =
     (let json_start = py_find response_text (lit ''{'');
          json_end = py_rfind response_text (lit ''}'') + 1
      in if json_start \<ge> 0 \<and> json_end > json_start
         then Some (py_slice response_text json_start json_end)
         else None)"

definition generate_with_gemini :: "env \<Rightarrow> pystr \<Rightarrow> world \<Rightarrow> pyval \<times> world" where
  "generate_with_gemini e prompt w =
     (let w1 = w\<lparr>prompts_sent := prompts_sent w @ [prompt]\<rparr> in
      case generate_content e prompt of
        Inl ex \<Rightarrow>
          (PNone, st_error_exc (lit ''Error generating content with Gemini: '') ex w1)
      | Inr text \<Rightarrow>
          (case json_payload (strip_fence (strip text)) of
             None \<Rightarrow> (PNone, st_error (lit ''Could not parse JSON from AI response'') w1)
           | Some json_str \<Rightarrow>
               (case json_loads e json_str of
                  Inl ex \<Rightarrow>
                    (PNone, st_error_exc (lit ''Error generating content with Gemini: '') ex w1)
                | Inr v \<Rightarrow> (v, w1))))"

definition generate_fallback_content :: "env \<Rightarrow> pystr \<Rightarrow> PresentationData" where
  "generate_fallback_content e the_topic =
     \<lparr> slides = [
         new_SlideContent
           (PStr the_topic)
           (PList [PStr (lit ''AI-Generated Professional Presentation''),
                   PStr (lit ''Comprehensive Analysis''),
                   PStr (lit ''Data-Driven Insights'')])
           (PStr (lit ''This presentation has been automatically generated using advanced AI technology to provide comprehensive coverage of the topic with relevant insights and supporting information.''))
           (PList [PStr (lit ''https://via.placeholder.com/400x300/1f497d/ffffff?text=Title+Slide'')])
           (PList [PStr (lit ''https://example.com/ai-presentations'')]),
         new_SlideContent
           (PStr (lit ''Introduction & Overview''))
           (PList [PStr (lit ''Comprehensive overview of '' @ the_topic),
                   PStr (lit ''Key concepts and fundamental principles''),
                   PStr (lit ''Current relevance and importance''),
                   PStr (lit ''Presentation structure and objectives'')])
           (PStr (lit ''This section provides the foundational understanding necessary to grasp the core concepts. We'll explore the historical context, current applications, and future implications of the topic.''))
           (PList [PStr (lit ''https://via.placeholder.com/400x300/28a745/ffffff?text=Overview'')])
           (PList [PStr (lit ''https://example.com/introduction''),
                   PStr (lit ''https://example.com/overview'')]),
         new_SlideContent
           (PStr (lit ''Key Analysis & Findings''))
           (PList [PStr (lit ''Primary research findings and data''),
                   PStr (lit ''Statistical analysis and trends''),
                   PStr (lit ''Critical insights and interpretations''),
                   PStr (lit ''Practical applications and use cases'')])
           (PStr (lit ''Our analysis reveals significant patterns and trends that have important implications for understanding this topic. These findings are based on current research and real-world applications.''))
           (PList [PStr (lit ''https://via.placeholder.com/400x300/dc3545/ffffff?text=Data+Analysis'')])
           (PList [PStr (lit ''https://example.com/research''),
                   PStr (lit ''https://example.com/data-analysis'')]),
         new_SlideContent
           (PStr (lit ''Conclusions & Next Steps''))
           (PList [PStr (lit ''Summary of critical findings''),
                   PStr (lit ''Key takeaways and insights''),
                   PStr (lit ''Future considerations and opportunities''),
                   PStr (lit ''Recommended actions and next steps'')])
           (PStr (lit ''Based on our comprehensive analysis, these conclusions provide a clear path forward. The recommendations are actionable and based on evidence-driven insights.''))
           (PList [PStr (lit ''https://via.placeholder.com/400x300/6f42c1/ffffff?text=Conclusions'')])
           (PList [PStr (lit ''https://example.com/conclusions''),
                   PStr (lit ''https://example.com/future-research'')])
       ],
       topic = the_topic,
       generated_at = now e \<rparr>"

text \<open>The body of the loop of \<open>generate_presentation_content\<close>: one \<open>SlideContent\<close> from
  one decoded element, every absent key replaced by its default.\<close>

definition slide_of :: "pyval \<Rightarrow> py_error + SlideContent" where
  "slide_of slide_data =
     and_then (py_get slide_data (lit ''title'') (PStr [])) (\<lambda>t.
     and_then (py_get slide_data (lit ''bullet_points'') (PList [])) (\<lambda>b.
     and_then (py_get slide_data (lit ''additional_info'') (PStr [])) (\<lambda>a.
     and_then (py_get slide_data (lit ''image_urls'') (PList [])) (\<lambda>i.
     and_then (py_get slide_data (lit ''reference_urls'') (PList [])) (\<lambda>r.
     Inr (new_SlideContent t b a i r))))))"

fun append_slides :: "SlideContent list \<Rightarrow> pyval list \<Rightarrow> py_error + SlideContent list" where
  "append_slides acc [] = Inr acc"
| "append_slides acc (slide_data # rest) =
     (case slide_of slide_data of
        Inl ex \<Rightarrow> Inl ex
      | Inr s \<Rightarrow> append_slides (acc @ [s]) rest)"

text \<open>The \<open>try\<close> block: \<open>for slide_data in result.get('slides', [])\<close>.\<close>

definition decode_slides :: "pyval \<Rightarrow> py_error + SlideContent list" where
  "decode_slides result =
     and_then (py_get result (lit ''slides'') (PList [])) (\<lambda>v.
     and_then (py_iter v) (\<lambda>items.
     append_slides [] items))"

definition generate_presentation_content ::
  "env \<Rightarrow> pystr \<Rightarrow> pystr \<Rightarrow> pystr \<Rightarrow> world \<Rightarrow> PresentationData \<times> world" where
  "generate_presentation_content e api_key the_topic document_content w =
     (if api_key = [] then
        (generate_fallback_content e the_topic,
         st_error (lit ''Please provide a valid Gemini API key'') w)
      else
        let prompt = create_presentation_prompt the_topic document_content;
            (result, w1) = generate_with_gemini e prompt w
        in if \<not> truthy result then (generate_fallback_content e the_topic, w1)
           else
             (case decode_slides result of
                Inr sl \<Rightarrow> (\<lparr> slides = sl, topic = the_topic, generated_at = now e \<rparr>, w1)
              | Inl ex \<Rightarrow>
                  (generate_fallback_content e the_topic,
                   st_error_exc (lit ''Error parsing AI response: '') ex w1)))"

section \<open>PDF generation\<close>





definition bullet :: pystr where
  "bullet = [8226, 32]"











section \<open>Application flow\<close>

text \<open>
  One run of \<open>main\<close> in which the generate button is pressed, from the inputs of the page
  to the generated presentation. The button is disabled while the topic is blank, and the
  page stops at the warning while no API key is entered.
\<close>

datatype input_method = TopicOnly | UploadDocument

definition main_generate ::
  "env \<Rightarrow> pystr \<Rightarrow> input_method \<Rightarrow> pystr \<Rightarrow> uploaded_file option \<Rightarrow> world
     \<Rightarrow> PresentationData option \<times> world" where
  "main_generate e api_key method the_topic uploaded w =
     (if api_key = [] then
        (None, st_warning (lit ''Please enter your Gemini API key to continue'') w)
      else
        case (case method of
                TopicOnly \<Rightarrow> ([], w)
              | UploadDocument \<Rightarrow>
                  (case uploaded of
                     None \<Rightarrow> ([], w)
                   | Some f \<Rightarrow>
                       (case process_uploaded_file e (Some f) w of
                          (document_content, w1) \<Rightarrow>
                            if document_content \<noteq> [] then
                              (document_content,
                               st_success
                                 ([9989] @ lit '' Document processed! ''
                                  @ show_nat (length document_content)
                                  @ lit '' characters extracted'') w1)
                            else (document_content, w1)))) of
          (document_content, w1) \<Rightarrow>
            if strip the_topic = [] then (None, w1)
            else
              (case generate_presentation_content e api_key the_topic document_content w1 of
                 (presentation_data, w2) \<Rightarrow>
                   (Some presentation_data,
                    st_success ([9989] @ lit '' Enhanced presentation generated!'') w2)))"

section \<open>Well-formed slides and the outcome of one image\<close>

text \<open>A slide is well formed when its three sequence fields hold lists, as the dataclass
  declares them; the elements and the two text fields may be any value.\<close>

fun is_list :: "pyval \<Rightarrow> bool" where
  "is_list (PList xs) = True"
| "is_list _ = False"


text \<open>The elements of a list value, for stating what a slide holds.\<close>

fun items :: "pyval \<Rightarrow> pyval list" where
  "items (PList xs) = xs"
| "items _ = []"

fun is_nonempty_str :: "pyval \<Rightarrow> bool" where
  "is_nonempty_str (PStr s) = (s \<noteq> [])"
| "is_nonempty_str _ = False"

fun starts_with :: "pystr \<Rightarrow> pyval \<Rightarrow> bool" where
  "starts_with p (PStr s) = prefix p s"
| "starts_with p _ = False"












section \<open>Concrete runs\<close>

text \<open>An empty world, and environments in which the AI service, the JSON decoder, the
  HTTP client and the image reader are given and every other collaborator is inert.\<close>

definition world0 :: world where
  "world0 = \<lparr> ui_log = [], console = [], prompts_sent = [], fetched = [], tmp_files = [] \<rparr>"

definition test_env ::
  "(pystr \<Rightarrow> py_error + pystr) \<Rightarrow> (pystr \<Rightarrow> py_error + pyval) \<Rightarrow> (nat \<Rightarrow> pyval \<Rightarrow> download)
     \<Rightarrow> (nat \<Rightarrow> py_error option) \<Rightarrow> env" where
  "test_env gen loads get img =
     \<lparr> generate_content = gen, json_loads = loads, now = 0,
       strftime = (\<lambda>t. lit ''January 01, 2026''), py_str = (\<lambda>v. lit ''?''),
       requests_get = get, image_open = img,
       pdf_pages = (\<lambda>b. Inr []), docx_paragraphs = (\<lambda>b. Inr []),
       utf8_decode = (\<lambda>b. Inr []), read_csv = (\<lambda>b. Inl (Raised [])),
       doc_build = (\<lambda>story. Inr []) \<rparr>"

text \<open>The AI service answers \<open>text\<close>, and the decoder reads \<open>payload\<close> as \<open>v\<close> and rejects
  every other string.\<close>

definition answering :: "pystr \<Rightarrow> pystr \<Rightarrow> pyval \<Rightarrow> env" where
  "answering text payload v =
     test_env (\<lambda>prompt. Inr text)
       (\<lambda>s. if s = payload then Inr v else Inl (Raised (lit ''Expecting value'')))
       (\<lambda>k url. DownloadFailed (Raised (lit ''unreachable'')))
       (\<lambda>k. None)"


text \<open>The AI service raises.\<close>

definition unreachable :: env where
  "unreachable =
     test_env (\<lambda>prompt. Inl (Raised (lit ''503 Service Unavailable'')))
       (\<lambda>s. Inl (Raised (lit ''Expecting value'')))
       (\<lambda>k url. DownloadFailed (Raised (lit ''unreachable'')))
       (\<lambda>k. None)"





section \<open>Properties of the string operations\<close>

lemma find_first_prefix: "find_first p s = Some i \<Longrightarrow> prefix p (drop i s) \<and> i \<le> length s"
proof (induction s arbitrary: i)
  case Nil
  then show ?case by (simp split: if_splits)
next
  case (Cons x xs)
  show ?case
  proof (cases "prefix p (x # xs)")
    case True
    with Cons.prems show ?thesis by simp
  next
    case False
    with Cons.prems obtain k where k: "find_first p xs = Some k" "i = Suc k" by auto
    with Cons.IH [of k] show ?thesis by simp
  qed
qed

lemma find_last_prefix: "find_last p s = Some j \<Longrightarrow> prefix p (drop j s) \<and> j \<le> length s"
proof (induction s arbitrary: j)
  case Nil
  then show ?case by (simp split: if_splits)
next
  case (Cons x xs)
  show ?case
  proof (cases "find_last p xs")
    case None
    with Cons.prems show ?thesis by (simp split: if_splits)
  next
    case (Some k)
    with Cons.prems Cons.IH [of k] show ?thesis by auto
  qed
qed

lemma find_last_None: "find_last p s = None \<Longrightarrow> \<not> prefix p (drop k s)"
proof (induction s arbitrary: k)
  case Nil
  then show ?case by (simp split: if_splits)
next
  case (Cons x xs)
  then have n: "find_last p xs = None" and np: "\<not> prefix p (x # xs)"
    by (auto split: option.splits if_splits)
  show ?case
  proof (cases k)
    case 0
    with np show ?thesis by simp
  next
    case (Suc m)
    with Cons.IH [OF n, of m] show ?thesis by simp
  qed
qed

lemma find_last_greatest:
  "find_last p s = Some j \<Longrightarrow> j < k \<Longrightarrow> k \<le> length s \<Longrightarrow> \<not> prefix p (drop k s)"
proof (induction s arbitrary: j k)
  case Nil
  then show ?case by simp
next
  case (Cons x xs)
  from Cons.prems(2) obtain m where m: "k = Suc m" by (cases k) auto
  show ?case
  proof (cases "find_last p xs")
    case None
    then show ?thesis using find_last_None [of p xs m] m by simp
  next
    case (Some i)
    with Cons.prems have "j = Suc i" by simp
    with Cons.IH [OF Some, of m] Cons.prems m show ?thesis by simp
  qed
qed

lemma find_first_least:
  "find_first p s = Some i \<Longrightarrow> k < i \<Longrightarrow> \<not> prefix p (drop k s)"
proof (induction s arbitrary: i k)
  case Nil
  then show ?case by (simp split: if_splits)
next
  case (Cons x xs)
  show ?case
  proof (cases "prefix p (x # xs)")
    case True
    with Cons.prems show ?thesis by simp
  next
    case False
    with Cons.prems obtain m where m: "find_first p xs = Some m" "i = Suc m" by auto
    show ?thesis
    proof (cases k)
      case 0
      with False show ?thesis by simp
    next
      case (Suc n)
      with Cons.IH [OF m(1), of n] Cons.prems m show ?thesis by simp
    qed
  qed
qed

lemma find_first_None: "find_first p s = None \<Longrightarrow> \<not> prefix p (drop k s)"
proof (induction s arbitrary: k)
  case Nil
  then show ?case by (simp split: if_splits)
next
  case (Cons x xs)
  then have n: "find_first p xs = None" and np: "\<not> prefix p (x # xs)"
    by (auto split: if_splits)
  show ?case
  proof (cases k)
    case 0
    with np show ?thesis by simp
  next
    case (Suc m)
    with Cons.IH [OF n, of m] show ?thesis by simp
  qed
qed

lemma prefix_single_drop: "prefix [c] (drop k s) \<longleftrightarrow> k < length s \<and> s ! k = c"
proof (cases "k < length s")
  case True
  then have "drop k s = s ! k # drop (Suc k) s" by (simp add: Cons_nth_drop_Suc)
  with True show ?thesis by auto
next
  case False
  then show ?thesis by simp
qed

lemma find_first_exists:
  assumes "prefix p (drop k s)"
  shows "\<exists>i. find_first p s = Some i \<and> i \<le> k"
proof (cases "find_first p s")
  case None
  with assms find_first_None [of p s k] show ?thesis by simp
next
  case (Some i)
  with assms find_first_least [of p s i k] show ?thesis by (cases "k < i") auto
qed

lemma find_last_exists:
  assumes "prefix p (drop k s)" and "k \<le> length s"
  shows "\<exists>j. find_last p s = Some j \<and> k \<le> j"
proof (cases "find_last p s")
  case None
  with assms find_last_None [of p s k] show ?thesis by simp
next
  case (Some j)
  with assms find_last_greatest [of p s j k] show ?thesis by (cases "j < k") auto
qed

lemma lit_lbrace: "lit ''{'' = [123]" by (simp add: lit_def)
lemma lit_rbrace: "lit ''}'' = [125]" by (simp add: lit_def)

lemma py_slice_nat:
  "py_slice s (int a) (int b) = drop a (take b s)"
  by (simp add: py_slice_def clip_index_def min_def)

lemma json_payload_Some:
  assumes "json_payload t = Some p"
  shows "\<exists>pre mid post. t = pre @ p @ post \<and> p = [123] @ mid @ [125]
           \<and> 123 \<notin> set pre \<and> 125 \<notin> set post"
proof -
  from assms obtain i j where i: "find_first [123] t = Some i" and j: "find_last [125] t = Some j"
    and le: "i \<le> j" and p: "p = py_slice t (int i) (int j + 1)"
    by (auto simp add: json_payload_def py_find_def py_rfind_def lit_lbrace lit_rbrace Let_def
        split: option.splits if_splits)
  from find_first_prefix [OF i] have ti: "i < length t" "t ! i = 123"
    by (simp_all add: prefix_single_drop)
  from find_last_prefix [OF j] have tj: "j < length t" "t ! j = 125"
    by (simp_all add: prefix_single_drop)
  from ti tj le have lt: "i < j" by (cases "i = j") auto
  have p': "p = drop i (take (Suc j) t)"
    using p py_slice_nat [of t i "Suc j"] by (simp add: add.commute)
  have pre: "123 \<notin> set (take i t)"
  proof
    assume "123 \<in> set (take i t)"
    then obtain k where "k < i" "k < length t" "t ! k = 123"
      by (auto simp add: in_set_conv_nth)
    with find_first_least [OF i, of k] show False by (simp add: prefix_single_drop)
  qed
  have post: "125 \<notin> set (drop (Suc j) t)"
  proof
    assume "125 \<in> set (drop (Suc j) t)"
    then obtain k where "k < length t - Suc j" "t ! (Suc j + k) = 125"
      by (auto simp add: in_set_conv_nth)
    then have "Suc j + k < length t" "prefix [125] (drop (Suc j + k) t)"
      by (simp_all add: prefix_single_drop)
    with find_last_greatest [OF j, of "Suc j + k"] show False by simp
  qed
  have mid: "drop i (take (Suc j) t) = [123] @ drop (Suc i) (take j t) @ [125]"
  proof -
    have "take (Suc j) t = take j t @ [t ! j]" using tj by (simp add: take_Suc_conv_app_nth)
    moreover have "drop i (take j t) = t ! i # drop (Suc i) (take j t)"
      using lt tj by (simp add: Cons_nth_drop_Suc [symmetric])
    ultimately show ?thesis using ti tj lt by simp
  qed
  have "t = take i t @ drop i (take (Suc j) t) @ drop (Suc j) t"
  proof -
    have "take (Suc j) t = take i (take (Suc j) t) @ drop i (take (Suc j) t)"
      by (rule append_take_drop_id [symmetric])
    moreover have "take i (take (Suc j) t) = take i t" using lt by (simp add: min_def)
    ultimately have "take (Suc j) t = take i t @ drop i (take (Suc j) t)" by simp
    then have "take (Suc j) t @ drop (Suc j) t = (take i t @ drop i (take (Suc j) t)) @ drop (Suc j) t"
      by simp
    then show ?thesis by simp
  qed
  with p' mid pre post show ?thesis by blast
qed

lemma json_payload_None:
  "json_payload t = None \<longleftrightarrow>
     \<not> (\<exists>i j. i < j \<and> j < length t \<and> t ! i = 123 \<and> t ! j = 125)"
proof
  assume n: "json_payload t = None"
  show "\<not> (\<exists>i j. i < j \<and> j < length t \<and> t ! i = 123 \<and> t ! j = 125)"
  proof
    assume "\<exists>i j. i < j \<and> j < length t \<and> t ! i = 123 \<and> t ! j = 125"
    then obtain i j where ij: "i < j" "j < length t" "t ! i = 123" "t ! j = 125" by blast
    then have "prefix [123] (drop i t)" "prefix [125] (drop j t)"
      by (simp_all add: prefix_single_drop)
    with ij obtain i' j' where "find_first [123] t = Some i'" "i' \<le> i"
        "find_last [125] t = Some j'" "j \<le> j'"
      using find_first_exists [of "[123]" i t] find_last_exists [of "[125]" j t] by auto
    with ij have "json_payload t \<noteq> None"
      by (simp add: json_payload_def py_find_def py_rfind_def lit_lbrace lit_rbrace Let_def)
    with n show False by simp
  qed
next
  assume "\<not> (\<exists>i j. i < j \<and> j < length t \<and> t ! i = 123 \<and> t ! j = 125)"
  then have no: "\<And>i j. i < j \<Longrightarrow> j < length t \<Longrightarrow> t ! i = 123 \<Longrightarrow> t ! j \<noteq> 125" by blast
  show "json_payload t = None"
  proof (cases "json_payload t")
    case None
    then show ?thesis .
  next
    case (Some p)
    from json_payload_Some [OF Some] obtain pre mid post
      where t: "t = pre @ ([123] @ mid @ [125]) @ post" by blast
    have "length pre < length pre + Suc (length mid)" by simp
    moreover have "length pre + Suc (length mid) < length t" by (subst t) simp
    moreover have "t ! length pre = 123" by (subst t) simp
    moreover have "t ! (length pre + Suc (length mid)) = 125"
      by (subst t) (simp add: nth_append)
    ultimately show ?thesis using no by blast
  qed
qed

section \<open>Properties of the prompt builder\<close>

lemma py_slice_prefix: "py_slice s 0 (int n) = take n s"
  by (simp add: py_slice_def clip_index_def min_def)

text \<open>
  Claim C4. The prompt is a function of the topic and the document text alone (the
  definition takes no other argument, so equal inputs give equal prompts). A document text
  of more than 3000 characters contributes exactly its first 3000 characters followed by
  the marker \<open>...\<close>; a non-empty text of at most 3000 characters is inserted whole, with no
  marker; with an empty text the prompt is the preamble, the topic and the request to use
  general knowledge.
\<close>

theorem create_presentation_prompt_cases:
  "(length d > 3000 \<longrightarrow>
      create_presentation_prompt t d =
        base_prompt @ lit ''\<newline>\<newline>Document Content to Analyze:\<newline>''
          @ take 3000 d @ lit ''...'' @ lit ''\<newline>\<newline>Topic: '' @ t)
   \<and> (d \<noteq> [] \<and> length d \<le> 3000 \<longrightarrow>
      create_presentation_prompt t d =
        base_prompt @ lit ''\<newline>\<newline>Document Content to Analyze:\<newline>''
          @ d @ lit ''\<newline>\<newline>Topic: '' @ t)
   \<and> (d = [] \<longrightarrow>
      create_presentation_prompt t d =
        base_prompt @ lit ''\<newline>\<newline>Topic to Present: '' @ t
          @ lit ''\<newline>\<newline>Generate comprehensive content based on your knowledge with relevant examples, statistics, and references.'')"
proof -
  have "py_slice d 0 3000 = take 3000 d"
    using py_slice_prefix [of d 3000] by simp
  then show ?thesis
    by (auto simp add: create_presentation_prompt_def Let_def)
qed

text \<open>The three cases at a topic \<open>AI\<close>: a text of 3001 characters, the text \<open>notes\<close>, and no
  text.\<close>

theorem create_presentation_prompt_cases_witness:
  "create_presentation_prompt (lit ''AI'') (replicate 3001 120) =
     base_prompt @ lit ''\<newline>\<newline>Document Content to Analyze:\<newline>''
       @ replicate 3000 120 @ lit ''...'' @ lit ''\<newline>\<newline>Topic: '' @ lit ''AI''
   \<and> create_presentation_prompt (lit ''AI'') (lit ''notes'') =
     base_prompt @ lit ''\<newline>\<newline>Document Content to Analyze:\<newline>''
       @ lit ''notes'' @ lit ''\<newline>\<newline>Topic: '' @ lit ''AI''
   \<and> create_presentation_prompt (lit ''AI'') [] =
     base_prompt @ lit ''\<newline>\<newline>Topic to Present: '' @ lit ''AI''
       @ lit ''\<newline>\<newline>Generate comprehensive content based on your knowledge with relevant examples, statistics, and references.''"
proof -
  have a: "length (replicate 3001 (120::nat)) > 3000" by simp
  have b: "lit ''notes'' \<noteq> [] \<and> length (lit ''notes'') \<le> 3000" by (simp add: lit_def)
  have c: "take 3000 (replicate 3001 (120::nat)) = replicate 3000 120" by simp
  show ?thesis
    using a b c
      create_presentation_prompt_cases [of "replicate 3001 120" "lit ''AI''"]
      create_presentation_prompt_cases [of "lit ''notes''" "lit ''AI''"]
      create_presentation_prompt_cases [of "[]" "lit ''AI''"]
    by simp
qed

section \<open>Properties of the response parser\<close>

lemma fallback_slides_length: "length (slides (generate_fallback_content e t)) = 4"
  by (simp add: generate_fallback_content_def)

lemma gemini_cases:
  "fst (generate_with_gemini e prompt w) =
     (case generate_content e prompt of
        Inl ex \<Rightarrow> PNone
      | Inr raw \<Rightarrow>
          (case json_payload (strip_fence (strip raw)) of
             None \<Rightarrow> PNone
           | Some p \<Rightarrow> (case json_loads e p of Inl ex \<Rightarrow> PNone | Inr v \<Rightarrow> v)))"
  by (simp add: generate_with_gemini_def Let_def split: sum.splits option.splits)

lemma gemini_prompts:
  "prompts_sent (snd (generate_with_gemini e prompt w)) = prompts_sent w @ [prompt]"
  by (simp add: generate_with_gemini_def Let_def st_error_def st_error_exc_def
      split: sum.splits option.splits)

lemma content_cases:
  "api_key \<noteq> [] \<Longrightarrow>
   fst (generate_presentation_content e api_key t d w) =
     (let result = fst (generate_with_gemini e (create_presentation_prompt t d) w) in
      if \<not> truthy result then generate_fallback_content e t
      else case decode_slides result of
             Inr sl \<Rightarrow> \<lparr> slides = sl, topic = t, generated_at = now e \<rparr>
           | Inl ex \<Rightarrow> generate_fallback_content e t)"
  by (simp add: generate_presentation_content_def Let_def split: prod.splits sum.splits)

lemma content_no_key:
  "generate_presentation_content e [] t d w =
     (generate_fallback_content e t, st_error (lit ''Please provide a valid Gemini API key'') w)"
  by (simp add: generate_presentation_content_def)

text \<open>
  Claim C1, as amended. Content generation has no exceptional outcome: every exception
  raised inside it is caught. It returns the fallback presentation, which has four slides,
  when the call of the AI service raises, when the response holds no \<open>{\<close> ... \<open>}\<close> payload,
  when the payload does not decode, when the decoded value is empty, and when building the
  slides from the decoded value raises (the value under \<open>slides\<close> is not iterable, or an
  element is not an object).
\<close>

theorem generate_presentation_content_fallback:
  fixes e :: env and api_key t d :: pystr and w :: world
  defines "prompt \<equiv> create_presentation_prompt t d"
    and "r \<equiv> fst (generate_presentation_content e api_key t d w)"
    and "fb \<equiv> generate_fallback_content e t"
  shows "(\<forall>ex. generate_content e prompt = Inl ex \<longrightarrow> r = fb)
       \<and> (\<forall>raw. generate_content e prompt = Inr raw
              \<and> json_payload (strip_fence (strip raw)) = None \<longrightarrow> r = fb)
       \<and> (\<forall>raw p ex. generate_content e prompt = Inr raw
              \<and> json_payload (strip_fence (strip raw)) = Some p
              \<and> json_loads e p = Inl ex \<longrightarrow> r = fb)
       \<and> (\<forall>raw p v. generate_content e prompt = Inr raw
              \<and> json_payload (strip_fence (strip raw)) = Some p
              \<and> json_loads e p = Inr v \<and> \<not> truthy v \<longrightarrow> r = fb)
       \<and> (\<forall>raw p v ex. generate_content e prompt = Inr raw
              \<and> json_payload (strip_fence (strip raw)) = Some p
              \<and> json_loads e p = Inr v \<and> decode_slides v = Inl ex \<longrightarrow> r = fb)
       \<and> length (slides fb) = 4"
proof (cases "api_key = []")
  case True
  then show ?thesis
    unfolding r_def fb_def by (simp add: content_no_key fallback_slides_length)
next
  case False
  show ?thesis
    unfolding r_def fb_def prompt_def
    by (simp add: content_cases [OF False] gemini_cases fallback_slides_length Let_def)
qed


lemmas run_defs =
  generate_with_gemini_def strip_fence_def json_payload_def py_in_def py_find_def py_rfind_def
  py_slice_def clip_index_def strip_def is_space_def lit_def Let_def
  test_env_def answering_def unreachable_def world0_def st_error_def st_error_exc_def

text \<open>One run for each of the five cases, at the topic \<open>Solar\<close>.\<close>

theorem generate_presentation_content_fallback_witness:
  "(generate_content unreachable (create_presentation_prompt (lit ''Solar'') [])
      = Inl (Raised (lit ''503 Service Unavailable''))
    \<and> fst (generate_presentation_content unreachable (lit ''key'') (lit ''Solar'') [] world0)
      = generate_fallback_content unreachable (lit ''Solar''))
   \<and> (json_payload (strip_fence (strip (lit ''I cannot help with that.''))) = None
    \<and> fst (generate_presentation_content
             (answering (lit ''I cannot help with that.'') [] PNone)
             (lit ''key'') (lit ''Solar'') [] world0)
      = generate_fallback_content (answering (lit ''I cannot help with that.'') [] PNone)
          (lit ''Solar''))
   \<and> (json_payload (strip_fence (strip (lit ''{slides: oops}''))) = Some (lit ''{slides: oops}'')
    \<and> fst (generate_presentation_content
             (answering (lit ''{slides: oops}'') [] PNone)
             (lit ''key'') (lit ''Solar'') [] world0)
      = generate_fallback_content (answering (lit ''{slides: oops}'') [] PNone) (lit ''Solar''))
   \<and> (\<not> truthy (PDict [])
    \<and> fst (generate_presentation_content
             (answering (lit ''{}'') (lit ''{}'') (PDict []))
             (lit ''key'') (lit ''Solar'') [] world0)
      = generate_fallback_content (answering (lit ''{}'') (lit ''{}'') (PDict [])) (lit ''Solar''))
   \<and> (decode_slides (PDict [(lit ''slides'', PInt 5)]) = Inl TypeError
    \<and> fst (generate_presentation_content
             (answering (lit ''{\"slides\": 5}'') (lit ''{\"slides\": 5}'')
                (PDict [(lit ''slides'', PInt 5)]))
             (lit ''key'') (lit ''Solar'') [] world0)
      = generate_fallback_content
          (answering (lit ''{\"slides\": 5}'') (lit ''{\"slides\": 5}'')
             (PDict [(lit ''slides'', PInt 5)]))
          (lit ''Solar''))"
proof -
  let ?t = "lit ''Solar''" and ?k = "lit ''key''"
  let ?e2 = "answering (lit ''I cannot help with that.'') [] PNone"
  let ?e3 = "answering (lit ''{slides: oops}'') [] PNone"
  let ?e4 = "answering (lit ''{}'') (lit ''{}'') (PDict [])"
  let ?e5 = "answering (lit ''{\"slides\": 5}'') (lit ''{\"slides\": 5}'')
               (PDict [(lit ''slides'', PInt 5)])"
  have h1: "generate_content unreachable (create_presentation_prompt ?t [])
              = Inl (Raised (lit ''503 Service Unavailable''))"
    by (simp add: unreachable_def test_env_def)
  have h2: "generate_content ?e2 (create_presentation_prompt ?t [])
              = Inr (lit ''I cannot help with that.'')"
           "json_payload (strip_fence (strip (lit ''I cannot help with that.''))) = None"
    by (simp_all add: run_defs)
  have h3: "generate_content ?e3 (create_presentation_prompt ?t []) = Inr (lit ''{slides: oops}'')"
           "json_payload (strip_fence (strip (lit ''{slides: oops}''))) = Some (lit ''{slides: oops}'')"
           "json_loads ?e3 (lit ''{slides: oops}'') = Inl (Raised (lit ''Expecting value''))"
    by (simp_all add: run_defs)
  have h4: "generate_content ?e4 (create_presentation_prompt ?t []) = Inr (lit ''{}'')"
           "json_payload (strip_fence (strip (lit ''{}''))) = Some (lit ''{}'')"
           "json_loads ?e4 (lit ''{}'') = Inr (PDict [])" "\<not> truthy (PDict [])"
    by (simp_all add: run_defs)
  have h5: "generate_content ?e5 (create_presentation_prompt ?t []) = Inr (lit ''{\"slides\": 5}'')"
           "json_payload (strip_fence (strip (lit ''{\"slides\": 5}''))) = Some (lit ''{\"slides\": 5}'')"
           "json_loads ?e5 (lit ''{\"slides\": 5}'') = Inr (PDict [(lit ''slides'', PInt 5)])"
           "decode_slides (PDict [(lit ''slides'', PInt 5)]) = Inl TypeError"
    by (simp_all add: run_defs decode_slides_def and_then_def)
  have c1: "fst (generate_presentation_content unreachable ?k ?t [] world0)
              = generate_fallback_content unreachable ?t"
    using h1 generate_presentation_content_fallback [of unreachable ?t "[]" ?k world0] by blast
  have c2: "fst (generate_presentation_content ?e2 ?k ?t [] world0)
              = generate_fallback_content ?e2 ?t"
    using h2 generate_presentation_content_fallback [of ?e2 ?t "[]" ?k world0] by blast
  have c3: "fst (generate_presentation_content ?e3 ?k ?t [] world0)
              = generate_fallback_content ?e3 ?t"
    using h3 generate_presentation_content_fallback [of ?e3 ?t "[]" ?k world0] by blast
  have c4: "fst (generate_presentation_content ?e4 ?k ?t [] world0)
              = generate_fallback_content ?e4 ?t"
    using h4 generate_presentation_content_fallback [of ?e4 ?t "[]" ?k world0] by blast
  have c5: "fst (generate_presentation_content ?e5 ?k ?t [] world0)
              = generate_fallback_content ?e5 ?t"
    using h5 generate_presentation_content_fallback [of ?e5 ?t "[]" ?k world0] by blast
  from h1 h2(2) h3(2) h4(4) h5(4) c1 c2 c3 c4 c5 show ?thesis by (intro conjI)
qed

text \<open>
  The claim as stated fails where the decoded object is not empty and has no \<open>slides\<close> key:
  \<open>result.get('slides', [])\<close> is then the empty list, the loop body never runs, and the
  presentation returned has no slide and is not the fallback. Here the AI service answers
  \<open>{"title": "x"}\<close>.
\<close>

theorem missing_slides_counterexample:
  "map_of [(lit ''title'', PStr (lit ''x''))] (lit ''slides'') = None
   \<and> slides (fst (generate_presentation_content
        (answering (lit ''{\"title\": \"x\"}'') (lit ''{\"title\": \"x\"}'')
           (PDict [(lit ''title'', PStr (lit ''x''))]))
        (lit ''key'') (lit ''Solar'') [] world0)) = []
   \<and> fst (generate_presentation_content
        (answering (lit ''{\"title\": \"x\"}'') (lit ''{\"title\": \"x\"}'')
           (PDict [(lit ''title'', PStr (lit ''x''))]))
        (lit ''key'') (lit ''Solar'') [] world0)
     \<noteq> generate_fallback_content
        (answering (lit ''{\"title\": \"x\"}'') (lit ''{\"title\": \"x\"}'')
           (PDict [(lit ''title'', PStr (lit ''x''))]))
        (lit ''Solar'')"
proof -
  let ?e = "answering (lit ''{\"title\": \"x\"}'') (lit ''{\"title\": \"x\"}'')
              (PDict [(lit ''title'', PStr (lit ''x''))])"
  have a: "map_of [(lit ''title'', PStr (lit ''x''))] (lit ''slides'') = None"
    by (simp add: lit_def)
  have k: "lit ''key'' \<noteq> []" by (simp add: lit_def)
  have g: "fst (generate_with_gemini ?e (create_presentation_prompt (lit ''Solar'') []) world0)
             = PDict [(lit ''title'', PStr (lit ''x''))]"
    unfolding gemini_cases by (simp add: run_defs)
  have d: "decode_slides (PDict [(lit ''title'', PStr (lit ''x''))]) = Inr []"
    using a by (simp add: decode_slides_def and_then_def)
  have r: "fst (generate_presentation_content ?e (lit ''key'') (lit ''Solar'') [] world0)
             = \<lparr> slides = [], topic = lit ''Solar'', generated_at = now ?e \<rparr>"
    by (simp add: content_cases [OF k] g d)
  have s: "slides (fst (generate_presentation_content ?e (lit ''key'') (lit ''Solar'') [] world0)) = []"
    by (simp add: r)
  have "length (slides (fst (generate_presentation_content ?e (lit ''key'') (lit ''Solar'') [] world0)))
          \<noteq> length (slides (generate_fallback_content ?e (lit ''Solar'')))"
    by (simp add: s fallback_slides_length)
  then have n: "fst (generate_presentation_content ?e (lit ''key'') (lit ''Solar'') [] world0)
                  \<noteq> generate_fallback_content ?e (lit ''Solar'')"
    by metis
  from a s n show ?thesis by (intro conjI)
qed

text \<open>
  Claim C3. Let \<open>t\<close> be the response after trimming and after the removal of a fence.
  When a payload is cut out, it runs from the first \<open>{\<close> of \<open>t\<close> to the last \<open>}\<close> of \<open>t\<close>,
  both included: \<open>t\<close> is the payload between a part without \<open>{\<close> and a part without \<open>}\<close>.
  No payload is cut out exactly when no \<open>{\<close> of \<open>t\<close> comes before a \<open>}\<close> of \<open>t\<close>. The decoder
  is given the payload, and without a payload the operation returns \<open>None\<close>.
\<close>

theorem json_payload_first_to_last:
  fixes raw :: pystr
  defines "t \<equiv> strip_fence (strip raw)"
  shows "(\<forall>p. json_payload t = Some p \<longrightarrow>
            (\<exists>pre mid post. t = pre @ p @ post \<and> p = lit ''{'' @ mid @ lit ''}''
               \<and> of_char CHR ''{'' \<notin> set pre \<and> of_char CHR ''}'' \<notin> set post))
       \<and> (json_payload t = None \<longleftrightarrow>
            \<not> (\<exists>i j. i < j \<and> j < length t \<and> t ! i = of_char CHR ''{'' \<and> t ! j = of_char CHR ''}''))
       \<and> (generate_content e prompt = Inr raw \<longrightarrow>
            fst (generate_with_gemini e prompt w) =
              (case json_payload t of
                 None \<Rightarrow> PNone
               | Some p \<Rightarrow> (case json_loads e p of Inl ex \<Rightarrow> PNone | Inr v \<Rightarrow> v)))"
proof (intro conjI allI impI)
  fix p assume "json_payload t = Some p"
  from json_payload_Some [OF this]
  show "\<exists>pre mid post. t = pre @ p @ post \<and> p = lit ''{'' @ mid @ lit ''}''
          \<and> of_char CHR ''{'' \<notin> set pre \<and> of_char CHR ''}'' \<notin> set post"
    by (simp add: lit_lbrace lit_rbrace)
next
  show "json_payload t = None \<longleftrightarrow>
          \<not> (\<exists>i j. i < j \<and> j < length t \<and> t ! i = of_char CHR ''{'' \<and> t ! j = of_char CHR ''}'')"
    using json_payload_None [of t] by simp
next
  assume "generate_content e prompt = Inr raw"
  then show "fst (generate_with_gemini e prompt w) =
              (case json_payload t of
                 None \<Rightarrow> PNone
               | Some p \<Rightarrow> (case json_loads e p of Inl ex \<Rightarrow> PNone | Inr v \<Rightarrow> v))"
    by (simp add: gemini_cases t_def)
qed


text \<open>A response with prose before and after the object.\<close>

theorem json_payload_first_to_last_witness:
  "json_payload (strip_fence (strip (lit ''Sure! {\"slides\": []} Hope this helps.'')))
     = Some (lit ''{\"slides\": []}'')
   \<and> (\<exists>pre mid post.
         strip_fence (strip (lit ''Sure! {\"slides\": []} Hope this helps.''))
           = pre @ lit ''{\"slides\": []}'' @ post
         \<and> lit ''{\"slides\": []}'' = lit ''{'' @ mid @ lit ''}''
         \<and> of_char CHR ''{'' \<notin> set pre \<and> of_char CHR ''}'' \<notin> set post)
   \<and> generate_content
         (answering (lit ''Sure! {\"slides\": []} Hope this helps.'') (lit ''{\"slides\": []}'')
            (PDict [(lit ''slides'', PList [])]))
         (lit ''prompt'')
       = Inr (lit ''Sure! {\"slides\": []} Hope this helps.'')
   \<and> fst (generate_with_gemini
         (answering (lit ''Sure! {\"slides\": []} Hope this helps.'') (lit ''{\"slides\": []}'')
            (PDict [(lit ''slides'', PList [])]))
         (lit ''prompt'') world0)
       = PDict [(lit ''slides'', PList [])]"
proof -
  let ?raw = "lit ''Sure! {\"slides\": []} Hope this helps.''"
  let ?p = "lit ''{\"slides\": []}''"
  let ?e = "answering ?raw ?p (PDict [(lit ''slides'', PList [])])"
  have h: "json_payload (strip_fence (strip ?raw)) = Some ?p"
    by (simp add: run_defs)
  have g: "generate_content ?e (lit ''prompt'') = Inr ?raw"
    by (simp add: answering_def test_env_def)
  have l: "json_loads ?e ?p = Inr (PDict [(lit ''slides'', PList [])])"
    by (simp add: answering_def test_env_def)
  note inst = json_payload_first_to_last [of ?raw ?e "lit ''prompt''" world0]
  from inst h have d: "\<exists>pre mid post. strip_fence (strip ?raw) = pre @ ?p @ post
      \<and> ?p = lit ''{'' @ mid @ lit ''}''
      \<and> of_char CHR ''{'' \<notin> set pre \<and> of_char CHR ''}'' \<notin> set post"
    by blast
  from inst g have "fst (generate_with_gemini ?e (lit ''prompt'') world0) =
      (case json_payload (strip_fence (strip ?raw)) of
         None \<Rightarrow> PNone
       | Some p \<Rightarrow> (case json_loads ?e p of Inl ex \<Rightarrow> PNone | Inr v \<Rightarrow> v))"
    by blast
  with h l have r: "fst (generate_with_gemini ?e (lit ''prompt'') world0)
      = PDict [(lit ''slides'', PList [])]"
    by simp
  from h d g r show ?thesis by (intro conjI)
qed

lemma find_last_no_later:
  assumes "find_last p s = Some j" and "p \<noteq> []" and "j < k"
  shows "\<not> prefix p (drop k s)"
proof (cases "k \<le> length s")
  case True
  with assms find_last_greatest [of p s j k] show ?thesis by simp
next
  case False
  with assms(2) show ?thesis by simp
qed

text \<open>
  Claim C10. Let \<open>t\<close> be the trimmed response. When \<open>t\<close> contains the opening marker
  \<open>```json\<close> and no \<open>```\<close> starts beyond the end of the first opening marker, removing the
  fence leaves \<open>t\<close> as it is, and the cut from the first \<open>{\<close> to the last \<open>}\<close> is made in
  the whole of \<open>t\<close>.
\<close>

theorem unclosed_fence_keeps_text:
  fixes raw :: pystr
  defines "t \<equiv> strip raw"
  assumes opener: "py_in (lit ''```json'') t"
    and no_closer:
      "\<forall>k. int k > py_find t (lit ''```json'') + 7 \<longrightarrow> \<not> prefix (lit ''```'') (drop k t)"
  shows "strip_fence t = t
       \<and> json_payload (strip_fence t) = json_payload t
       \<and> (generate_content e prompt = Inr raw \<longrightarrow>
            fst (generate_with_gemini e prompt w) =
              (case json_payload t of
                 None \<Rightarrow> PNone
               | Some p \<Rightarrow> (case json_loads e p of Inl ex \<Rightarrow> PNone | Inr v \<Rightarrow> v)))"
proof -
  have "\<not> py_rfind t (lit ''```'') > py_find t (lit ''```json'') + 7"
  proof (cases "find_last (lit ''```'') t")
    case None
    then have "py_rfind t (lit ''```'') = - 1" by (simp add: py_rfind_def)
    moreover have "py_find t (lit ''```json'') \<ge> - 1"
      by (simp add: py_find_def split: option.splits)
    ultimately show ?thesis by simp
  next
    case (Some j)
    from find_last_prefix [OF Some] no_closer have "\<not> int j > py_find t (lit ''```json'') + 7"
      by blast
    with Some show ?thesis by (simp add: py_rfind_def)
  qed
  then have a: "strip_fence t = t" by (simp add: strip_fence_def Let_def)
  then show ?thesis by (simp add: gemini_cases t_def)
qed

text \<open>A response that opens a fence and never closes it.\<close>

theorem unclosed_fence_keeps_text_witness:
  "py_in (lit ''```json'') (strip (lit ''```json{\"slides\": []}''))
   \<and> strip_fence (strip (lit ''```json{\"slides\": []}'')) = strip (lit ''```json{\"slides\": []}'')
   \<and> json_payload (strip_fence (strip (lit ''```json{\"slides\": []}'')))
       = Some (lit ''{\"slides\": []}'')
   \<and> fst (generate_with_gemini
         (answering (lit ''```json{\"slides\": []}'') (lit ''{\"slides\": []}'')
            (PDict [(lit ''slides'', PList [])]))
         (lit ''prompt'') world0)
       = PDict [(lit ''slides'', PList [])]"
proof -
  let ?raw = "lit ''```json{\"slides\": []}''"
  let ?p = "lit ''{\"slides\": []}''"
  let ?e = "answering ?raw ?p (PDict [(lit ''slides'', PList [])])"
  have s: "strip ?raw = ?raw" by (simp add: strip_def is_space_def lit_def)
  have o: "py_in (lit ''```json'') (strip ?raw)"
    unfolding s by (simp add: py_in_def lit_def)
  have f: "py_find (strip ?raw) (lit ''```json'') = 0"
    unfolding s by (simp add: py_find_def lit_def)
  have l: "find_last (lit ''```'') (strip ?raw) = Some 0"
    unfolding s by (simp add: lit_def)
  have ne: "lit ''```'' \<noteq> []" by (simp add: lit_def)
  have n: "\<forall>k. int k > py_find (strip ?raw) (lit ''```json'') + 7
             \<longrightarrow> \<not> prefix (lit ''```'') (drop k (strip ?raw))"
    using find_last_no_later [OF l ne] by (simp add: f)
  have g: "generate_content ?e (lit ''prompt'') = Inr ?raw"
    by (simp add: answering_def test_env_def)
  have jp: "json_payload (strip ?raw) = Some ?p"
    unfolding s by (simp add: run_defs)
  have jl: "json_loads ?e ?p = Inr (PDict [(lit ''slides'', PList [])])"
    by (simp add: answering_def test_env_def)
  note inst = unclosed_fence_keeps_text [OF o n, of ?e "lit ''prompt''" world0]
  from inst have a: "strip_fence (strip ?raw) = strip ?raw" by blast
  from inst jp have b: "json_payload (strip_fence (strip ?raw)) = Some ?p" by simp
  from inst g have "fst (generate_with_gemini ?e (lit ''prompt'') world0) =
      (case json_payload (strip ?raw) of
         None \<Rightarrow> PNone
       | Some p \<Rightarrow> (case json_loads ?e p of Inl ex \<Rightarrow> PNone | Inr v \<Rightarrow> v))"
    by blast
  with jp jl have c: "fst (generate_with_gemini ?e (lit ''prompt'') world0)
      = PDict [(lit ''slides'', PList [])]"
    by simp
  from o a b c show ?thesis by (intro conjI)
qed

text \<open>With a credential, exactly one prompt is sent to the AI service.\<close>

lemma key_sends_prompt:
  "api_key \<noteq> [] \<Longrightarrow>
   prompts_sent (snd (generate_presentation_content e api_key t d w))
     = prompts_sent w @ [create_presentation_prompt t d]"
  using gemini_prompts [of e "create_presentation_prompt t d" w]
  by (auto simp add: generate_presentation_content_def Let_def st_error_exc_def
      split: prod.splits sum.splits)

text \<open>
  Claim C9. With an empty credential, content generation reports the missing key and
  returns the four-slide fallback presentation at once: the result does not depend on the
  document text, and no prompt is sent to the AI service.
\<close>

theorem no_key_no_call:
  "generate_presentation_content e [] t d w =
     (generate_fallback_content e t, st_error (lit ''Please provide a valid Gemini API key'') w)
   \<and> prompts_sent (snd (generate_presentation_content e [] t d w)) = prompts_sent w
   \<and> length (slides (fst (generate_presentation_content e [] t d w))) = 4"
  by (simp add: content_no_key fallback_slides_length st_error_def)

lemma lit_nonempty: "lit (c # cs) \<noteq> []" "lit (c # cs) @ t \<noteq> []"
  by (simp_all add: lit_def)

lemma fallback_fields:
  "map title (slides (generate_fallback_content e t)) =
     [PStr t, PStr (lit ''Introduction & Overview''), PStr (lit ''Key Analysis & Findings''),
      PStr (lit ''Conclusions & Next Steps'')]"
  "map bullet_points (slides (generate_fallback_content e t)) =
     [PList [PStr (lit ''AI-Generated Professional Presentation''),
             PStr (lit ''Comprehensive Analysis''),
             PStr (lit ''Data-Driven Insights'')],
      PList [PStr (lit ''Comprehensive overview of '' @ t),
             PStr (lit ''Key concepts and fundamental principles''),
             PStr (lit ''Current relevance and importance''),
             PStr (lit ''Presentation structure and objectives'')],
      PList [PStr (lit ''Primary research findings and data''),
             PStr (lit ''Statistical analysis and trends''),
             PStr (lit ''Critical insights and interpretations''),
             PStr (lit ''Practical applications and use cases'')],
      PList [PStr (lit ''Summary of critical findings''),
             PStr (lit ''Key takeaways and insights''),
             PStr (lit ''Future considerations and opportunities''),
             PStr (lit ''Recommended actions and next steps'')]]"
  "map image_urls (slides (generate_fallback_content e t)) =
     [PList [PStr (lit ''https://via.placeholder.com/400x300/1f497d/ffffff?text=Title+Slide'')],
      PList [PStr (lit ''https://via.placeholder.com/400x300/28a745/ffffff?text=Overview'')],
      PList [PStr (lit ''https://via.placeholder.com/400x300/dc3545/ffffff?text=Data+Analysis'')],
      PList [PStr (lit ''https://via.placeholder.com/400x300/6f42c1/ffffff?text=Conclusions'')]]"
  "map reference_urls (slides (generate_fallback_content e t)) =
     [PList [PStr (lit ''https://example.com/ai-presentations'')],
      PList [PStr (lit ''https://example.com/introduction''),
             PStr (lit ''https://example.com/overview'')],
      PList [PStr (lit ''https://example.com/research''),
             PStr (lit ''https://example.com/data-analysis'')],
      PList [PStr (lit ''https://example.com/conclusions''),
             PStr (lit ''https://example.com/future-research'')]]"
  by (simp_all add: generate_fallback_content_def new_SlideContent_def)

text \<open>
  Claim C2. The fallback presentation has four slides, titled with the topic,
  \<open>Introduction & Overview\<close>, \<open>Key Analysis & Findings\<close> and \<open>Conclusions & Next Steps\<close>.
  Every slide has a list of three or four non-empty bullet points, a non-empty descriptive
  text, exactly one image URL, which is a placeholder, and at least one reference URL, all
  of them placeholders. The slides depend on the topic only; the environment contributes the
  time stamp and nothing else.
\<close>

theorem fallback_content:
  "length (slides (generate_fallback_content e t)) = 4
   \<and> map title (slides (generate_fallback_content e t)) =
       [PStr t, PStr (lit ''Introduction & Overview''), PStr (lit ''Key Analysis & Findings''),
        PStr (lit ''Conclusions & Next Steps'')]
   \<and> list_all (\<lambda>v. is_list v \<and> list_all is_nonempty_str (items v))
        (map bullet_points (slides (generate_fallback_content e t)))
   \<and> map (\<lambda>v. length (items v)) (map bullet_points (slides (generate_fallback_content e t)))
       = [3, 4, 4, 4]
   \<and> list_all is_nonempty_str (map additional_info (slides (generate_fallback_content e t)))
   \<and> list_all (\<lambda>v. is_list v \<and> length (items v) = 1
                  \<and> list_all (starts_with (lit ''https://via.placeholder.com/'')) (items v))
        (map image_urls (slides (generate_fallback_content e t)))
   \<and> list_all (\<lambda>v. is_list v \<and> 1 \<le> length (items v)
                  \<and> list_all (starts_with (lit ''https://example.com/'')) (items v))
        (map reference_urls (slides (generate_fallback_content e t)))
   \<and> slides (generate_fallback_content e' t) = slides (generate_fallback_content e t)
   \<and> topic (generate_fallback_content e t) = t
   \<and> generated_at (generate_fallback_content e t) = now e"
proof -
  have c3: "list_all (\<lambda>v. is_list v \<and> list_all is_nonempty_str (items v))
              (map bullet_points (slides (generate_fallback_content e t)))"
    unfolding fallback_fields by (simp add: lit_nonempty)
  have c4: "map (\<lambda>v. length (items v)) (map bullet_points (slides (generate_fallback_content e t)))
              = [3, 4, 4, 4]"
    unfolding fallback_fields by simp
  have c5: "list_all is_nonempty_str (map additional_info (slides (generate_fallback_content e t)))"
    by (simp add: generate_fallback_content_def new_SlideContent_def lit_nonempty)
  have c6: "list_all (\<lambda>v. is_list v \<and> length (items v) = 1
                  \<and> list_all (starts_with (lit ''https://via.placeholder.com/'')) (items v))
        (map image_urls (slides (generate_fallback_content e t)))"
    unfolding fallback_fields by (simp add: lit_def)
  have c7: "list_all (\<lambda>v. is_list v \<and> 1 \<le> length (items v)
                  \<and> list_all (starts_with (lit ''https://example.com/'')) (items v))
        (map reference_urls (slides (generate_fallback_content e t)))"
    unfolding fallback_fields by (simp add: lit_def)
  have c8: "slides (generate_fallback_content e' t) = slides (generate_fallback_content e t)"
    by (simp add: generate_fallback_content_def)
  have c9: "topic (generate_fallback_content e t) = t"
    "generated_at (generate_fallback_content e t) = now e"
    by (simp_all add: generate_fallback_content_def)
  from fallback_slides_length [of e t] fallback_fields(1) [of e t] c3 c4 c5 c6 c7 c8 c9
  show ?thesis by (intro conjI)
qed

section \<open>Properties of document processing\<close>

text \<open>
  Claim C8. For a file whose declared type is none of the four supported ones,
  \<open>process_uploaded_file\<close> shows the message \<open>Unsupported file type\<close> and returns the empty
  string; it has no exceptional outcome. Content generation then receives the empty
  document text, and the run of the page continues exactly as a run without a document
  does after that message.
\<close>

theorem unsupported_file_type:
  assumes "file_type f \<notin> set supported_types"
  shows "process_uploaded_file e (Some f) w =
           ([], st_error (lit ''Unsupported file type: '' @ file_type f) w)
       \<and> generate_presentation_content e api_key t (fst (process_uploaded_file e (Some f) w)) w'
           = generate_presentation_content e api_key t [] w'
       \<and> (api_key \<noteq> [] \<longrightarrow>
            main_generate e api_key UploadDocument t (Some f) w
              = main_generate e api_key TopicOnly t None
                  (st_error (lit ''Unsupported file type: '' @ file_type f) w))"
proof -
  from assms have p: "process_uploaded_file e (Some f) w =
           ([], st_error (lit ''Unsupported file type: '' @ file_type f) w)"
    by (simp add: process_uploaded_file_def supported_types_def)
  then show ?thesis by (simp add: main_generate_def)
qed

text \<open>An uploaded PNG image.\<close>

theorem unsupported_file_type_witness:
  "lit ''image/png'' \<notin> set supported_types
   \<and> process_uploaded_file unreachable
        (Some \<lparr> file_type = lit ''image/png'', file_data = [137, 80, 78, 71] \<rparr>) world0
       = ([], st_error (lit ''Unsupported file type: image/png'') world0)
   \<and> main_generate unreachable (lit ''key'') UploadDocument (lit ''Solar'')
        (Some \<lparr> file_type = lit ''image/png'', file_data = [137, 80, 78, 71] \<rparr>) world0
       = main_generate unreachable (lit ''key'') TopicOnly (lit ''Solar'') None
           (st_error (lit ''Unsupported file type: image/png'') world0)"
proof -
  let ?f = "\<lparr> file_type = lit ''image/png'', file_data = [137, 80, 78, 71] \<rparr>"
  have h: "file_type ?f \<notin> set supported_types" by (simp add: supported_types_def lit_def)
  have k: "lit ''key'' \<noteq> []" by (simp add: lit_def)
  have m: "lit ''Unsupported file type: '' @ file_type ?f = lit ''Unsupported file type: image/png''"
    by (simp add: lit_def)
  from unsupported_file_type [OF h, of unreachable world0 "lit ''key''" "lit ''Solar''" world0] k
  have "process_uploaded_file unreachable (Some ?f) world0
           = ([], st_error (lit ''Unsupported file type: '' @ file_type ?f) world0)"
    and "main_generate unreachable (lit ''key'') UploadDocument (lit ''Solar'') (Some ?f) world0
           = main_generate unreachable (lit ''key'') TopicOnly (lit ''Solar'') None
               (st_error (lit ''Unsupported file type: '' @ file_type ?f) world0)"
    by blast+
  with h show ?thesis unfolding m by simp
qed

section \<open>Properties of PDF generation\<close>












































end
